theory Spec2Isabelle
  imports Main "HOL-Library.Monad_Syntax"
begin

section \<open>JavaScript values used by the routes\<close>

text \<open>
  A JavaScript string is a sequence of UTF-16 code units. A code unit is kept as a
  natural number below 65536 (no arithmetic is done on code units, so nothing wraps).
  \<open>js\<close> turns an Isabelle literal into the code units of the same ASCII text.
\<close>

type_synonym jsstring = "nat list"

abbreviation js :: "string \<Rightarrow> jsstring" where
  "js s \<equiv> map of_char s"

text \<open>
  The values \<open>JSON.parse\<close> can return. A number is kept as the text of its token:
  its value is an IEEE double, which is never computed here. The two places where the
  routes look at a number (conversion to a string, truthiness) go through the parameter
  \<open>numfmt\<close>, standing for \<open>Number.prototype.toString\<close> applied to the double the
  token denotes. An object is the list of its properties in creation order.
\<close>

datatype json =
    JNull
  | JBool bool
  | JNumber jsstring
  | JString jsstring
  | JArray "json list"
  | JObject "(jsstring \<times> json) list"

text \<open>
  \<open>Get v k\<close> is the property read \<open>v.k\<close> on a value that is neither \<open>null\<close> nor
  \<open>undefined\<close>, for a key \<open>k\<close> that no prototype defines (the routes read only
  \<open>name\<close>, \<open>description\<close>, \<open>personality\<close>, \<open>background\<close> and \<open>traits\<close>):
  an object answers with its own property, every other value with \<open>undefined\<close>,
  which is \<open>None\<close>.
\<close>

fun Get :: "json \<Rightarrow> jsstring \<Rightarrow> json option" where
  "Get (JObject kvs) k = map_of kvs k"
| "Get _ k = None"

text \<open>\<open>CreateDataProperty\<close>: a repeated key keeps its place and takes the new value.\<close>

fun put :: "(jsstring \<times> json) list \<Rightarrow> jsstring \<Rightarrow> json \<Rightarrow> (jsstring \<times> json) list" where
  "put [] k v = [(k, v)]"
| "put ((k', v') # kvs) k v = (if k' = k then (k, v) # kvs else (k', v') # put kvs k v)"

text \<open>
  \<open>!v\<close> is \<open>\<not> truthy numfmt v\<close>: \<open>null\<close>, \<open>false\<close>, the empty string and the
  numbers \<open>0\<close> and \<open>-0\<close> (both print as \<open>0\<close>) are falsy, everything else is truthy.
\<close>

fun truthy :: "(jsstring \<Rightarrow> jsstring) \<Rightarrow> json \<Rightarrow> bool" where
  "truthy numfmt JNull = False"
| "truthy numfmt (JBool b) = b"
| "truthy numfmt (JNumber n) = (numfmt n \<noteq> js ''0'')"
| "truthy numfmt (JString s) = (s \<noteq> [])"
| "truthy numfmt (JArray xs) = True"
| "truthy numfmt (JObject kvs) = True"


section \<open>\<open>JSON.parse\<close>\<close>

subsection \<open>Tokens\<close>

datatype token =
    TLBrace | TRBrace | TLBracket | TRBracket | TColon | TComma
  | TString jsstring
  | TNumber jsstring
  | TTrue | TFalse | TNull

definition is_ws :: "nat \<Rightarrow> bool" where
  \<comment> \<open>JSON white space: space, tab, line feed, carriage return\<close>
  "is_ws c = (c = 32 \<or> c = 9 \<or> c = 10 \<or> c = 13)"

definition is_digit :: "nat \<Rightarrow> bool" where
  "is_digit c = (48 \<le> c \<and> c \<le> 57)"

definition is_letter :: "nat \<Rightarrow> bool" where
  \<comment> \<open>the lower-case letters, of which \<open>true\<close>, \<open>false\<close> and \<open>null\<close> are made\<close>
  "is_letter c = (97 \<le> c \<and> c \<le> 122)"

definition is_numchar :: "nat \<Rightarrow> bool" where
  \<comment> \<open>the characters a number token is made of: digits, \<open>-\<close>, \<open>+\<close>, \<open>.\<close>, \<open>e\<close>, \<open>E\<close>\<close>
  "is_numchar c = (is_digit c \<or> c = 45 \<or> c = 43 \<or> c = 46 \<or> c = 101 \<or> c = 69)"

definition hexval :: "nat \<Rightarrow> nat option" where
  "hexval c =
     (if 48 \<le> c \<and> c \<le> 57 then Some (c - 48)
      else if 97 \<le> c \<and> c \<le> 102 then Some (c - 87)
      else if 65 \<le> c \<and> c \<le> 70 then Some (c - 55)
      else None)"

text \<open>The grammar of a number: \<open>-? (0 | [1-9][0-9]*) (. [0-9]+)? ([eE] [+-]? [0-9]+)?\<close>.\<close>

definition exp_part :: "jsstring \<Rightarrow> bool" where
  "exp_part r =
     (case r of
        [] \<Rightarrow> True
      | e # r' \<Rightarrow>
          (e = 101 \<or> e = 69) \<and>
          (let ds = (case r' of [] \<Rightarrow> [] | s # t \<Rightarrow> if s = 43 \<or> s = 45 then t else r')
           in ds \<noteq> [] \<and> list_all is_digit ds))"

definition frac_exp :: "jsstring \<Rightarrow> bool" where
  "frac_exp r =
     (case r of
        [] \<Rightarrow> True
      | d # r' \<Rightarrow>
          if d = 46 then takeWhile is_digit r' \<noteq> [] \<and> exp_part (dropWhile is_digit r')
          else exp_part r)"

definition is_number :: "jsstring \<Rightarrow> bool" where
  "is_number s =
     (let u = (case s of [] \<Rightarrow> [] | m # t \<Rightarrow> if m = 45 then t else s)
      in case u of
           [] \<Rightarrow> False
         | d # r \<Rightarrow>
             if d = 48 then frac_exp r
             else if 49 \<le> d \<and> d \<le> 57 then frac_exp (dropWhile is_digit r)
             else False)"

definition word_token :: "jsstring \<Rightarrow> token option" where
  "word_token w =
     (if w = js ''true'' then Some TTrue
      else if w = js ''false'' then Some TFalse
      else if w = js ''null'' then Some TNull
      else None)"

subsection \<open>The lexer\<close>

text \<open>
  The lexer reads one code unit at a time. Its state says what it is in the middle of;
  the code units of an unfinished token are kept newest first.
\<close>

datatype lexst =
    LStart
  | LStr jsstring             \<comment> \<open>inside a string\<close>
  | LEsc jsstring             \<comment> \<open>after a backslash inside a string\<close>
  | LUni jsstring "nat list"  \<comment> \<open>after \<open>\u\<close>, with the hex digits read so far\<close>
  | LNum jsstring             \<comment> \<open>inside a number\<close>
  | LWord jsstring            \<comment> \<open>inside \<open>true\<close>, \<open>false\<close> or \<open>null\<close>\<close>

definition lex_start :: "nat \<Rightarrow> (token list \<times> lexst) option" where
  "lex_start c =
     (if is_ws c then Some ([], LStart)
      else if c = 123 then Some ([TLBrace], LStart)
      else if c = 125 then Some ([TRBrace], LStart)
      else if c = 91 then Some ([TLBracket], LStart)
      else if c = 93 then Some ([TRBracket], LStart)
      else if c = 58 then Some ([TColon], LStart)
      else if c = 44 then Some ([TComma], LStart)
      else if c = 34 then Some ([], LStr [])
      else if c = 45 \<or> is_digit c then Some ([], LNum [c])
      else if is_letter c then Some ([], LWord [c])
      else None)"

definition unescape :: "nat \<Rightarrow> nat option" where
  "unescape c =
     (if c = 34 then Some 34
      else if c = 92 then Some 92
      else if c = 47 then Some 47
      else if c = 98 then Some 8
      else if c = 102 then Some 12
      else if c = 110 then Some 10
      else if c = 114 then Some 13
      else if c = 116 then Some 9
      else None)"

text \<open>
  A number or a word ends at the first code unit that cannot continue it; that code
  unit is then read again from the start state.
\<close>

definition close_then :: "token option \<Rightarrow> nat \<Rightarrow> (token list \<times> lexst) option" where
  "close_then t c =
     (case t of
        None \<Rightarrow> None
      | Some tok \<Rightarrow>
          (case lex_start c of
             None \<Rightarrow> None
           | Some (ts, st) \<Rightarrow> Some (tok # ts, st)))"

fun lex_step :: "lexst \<Rightarrow> nat \<Rightarrow> (token list \<times> lexst) option" where
  "lex_step LStart c = lex_start c"
| "lex_step (LStr acc) c =
     (if c = 34 then Some ([TString (rev acc)], LStart)
      else if c = 92 then Some ([], LEsc acc)
      else if c < 32 then None
      else Some ([], LStr (c # acc)))"
| "lex_step (LEsc acc) c =
     (if c = 117 then Some ([], LUni acc [])
      else (case unescape c of None \<Rightarrow> None | Some u \<Rightarrow> Some ([], LStr (u # acc))))"
| "lex_step (LUni acc hs) c =
     (case hexval c of
        None \<Rightarrow> None
      | Some h \<Rightarrow>
          (case hs of
             [a, b, d] \<Rightarrow> Some ([], LStr ((((a * 16 + b) * 16 + d) * 16 + h) # acc))
           | _ \<Rightarrow> Some ([], LUni acc (hs @ [h]))))"
| "lex_step (LNum acc) c =
     (if is_numchar c then Some ([], LNum (c # acc))
      else close_then (if is_number (rev acc) then Some (TNumber (rev acc)) else None) c)"
| "lex_step (LWord acc) c =
     (if is_letter c then Some ([], LWord (c # acc))
      else close_then (word_token (rev acc)) c)"

fun lex_end :: "lexst \<Rightarrow> token list option" where
  "lex_end LStart = Some []"
| "lex_end (LNum acc) = (if is_number (rev acc) then Some [TNumber (rev acc)] else None)"
| "lex_end (LWord acc) = (case word_token (rev acc) of None \<Rightarrow> None | Some t \<Rightarrow> Some [t])"
| "lex_end _ = None"

fun lex :: "lexst \<Rightarrow> jsstring \<Rightarrow> token list option" where
  "lex st [] = lex_end st"
| "lex st (c # cs) =
     (case lex_step st c of
        None \<Rightarrow> None
      | Some (ts, st') \<Rightarrow> (case lex st' cs of None \<Rightarrow> None | Some rest \<Rightarrow> Some (ts @ rest)))"

subsection \<open>The parser\<close>

text \<open>
  The parser is a pushdown automaton over the tokens. A frame of the stack is an open
  array (its elements, newest first), an open object, or an open object whose next
  value belongs to a key already read.
\<close>

datatype frame =
    FArray "json list"
  | FObject "(jsstring \<times> json) list"
  | FKey "(jsstring \<times> json) list" jsstring

datatype mode =
    Value          \<comment> \<open>a value must follow\<close>
  | ValueOrEnd     \<comment> \<open>just after \<open>[\<close>: a value or \<open>]\<close>\<close>
  | KeyOrEnd       \<comment> \<open>just after \<open>{\<close>: a key or \<open>}\<close>\<close>
  | Key            \<comment> \<open>after a comma in an object: a key\<close>
  | Colon          \<comment> \<open>after a key: a colon\<close>
  | Separator      \<comment> \<open>after a value inside an array or object: a comma or the closing bracket\<close>
  | Finished json  \<comment> \<open>the whole text has been read as this value\<close>

text \<open>A finished value goes into the frame below it, or is the result.\<close>

fun deliver :: "json \<Rightarrow> frame list \<Rightarrow> (frame list \<times> mode) option" where
  "deliver v [] = Some ([], Finished v)"
| "deliver v (FArray xs # st) = Some (FArray (v # xs) # st, Separator)"
| "deliver v (FKey kvs k # st) = Some (FObject (put kvs k v) # st, Separator)"
| "deliver v (FObject kvs # st) = None"

fun begin_value :: "token \<Rightarrow> frame list \<Rightarrow> (frame list \<times> mode) option" where
  "begin_value TLBrace st = Some (FObject [] # st, KeyOrEnd)"
| "begin_value TLBracket st = Some (FArray [] # st, ValueOrEnd)"
| "begin_value (TString s) st = deliver (JString s) st"
| "begin_value (TNumber n) st = deliver (JNumber n) st"
| "begin_value TTrue st = deliver (JBool True) st"
| "begin_value TFalse st = deliver (JBool False) st"
| "begin_value TNull st = deliver JNull st"
| "begin_value _ st = None"

fun begin_key :: "token \<Rightarrow> frame list \<Rightarrow> (frame list \<times> mode) option" where
  "begin_key (TString k) (FObject kvs # st) = Some (FKey kvs k # st, Colon)"
| "begin_key _ _ = None"

fun close_frame :: "token \<Rightarrow> frame list \<Rightarrow> (frame list \<times> mode) option" where
  "close_frame TRBracket (FArray xs # st) = deliver (JArray (rev xs)) st"
| "close_frame TRBrace (FObject kvs # st) = deliver (JObject kvs) st"
| "close_frame _ _ = None"

fun parse_step :: "mode \<Rightarrow> frame list \<Rightarrow> token \<Rightarrow> (frame list \<times> mode) option" where
  "parse_step Value st t = begin_value t st"
| "parse_step ValueOrEnd st t = (if t = TRBracket then close_frame t st else begin_value t st)"
| "parse_step KeyOrEnd st t = (if t = TRBrace then close_frame t st else begin_key t st)"
| "parse_step Key st t = begin_key t st"
| "parse_step Colon st t = (if t = TColon then Some (st, Value) else None)"
| "parse_step Separator st t =
     (if t = TComma then
        (case st of
           FArray xs # _ \<Rightarrow> Some (st, Value)
         | FObject kvs # _ \<Rightarrow> Some (st, Key)
         | _ \<Rightarrow> None)
      else close_frame t st)"
| "parse_step (Finished v) st t = None"

fun parse_tokens :: "mode \<Rightarrow> frame list \<Rightarrow> token list \<Rightarrow> json option" where
  "parse_tokens m st [] = (case m of Finished v \<Rightarrow> Some v | _ \<Rightarrow> None)"
| "parse_tokens m st (t # ts) =
     (case parse_step m st t of
        None \<Rightarrow> None
      | Some (st', m') \<Rightarrow> parse_tokens m' st' ts)"

text \<open>\<open>JSON.parse(text)\<close>; \<open>None\<close> is the \<open>SyntaxError\<close> it throws.\<close>

definition JSON_parse :: "jsstring \<Rightarrow> json option" where
  "JSON_parse text =
     (case lex LStart text of
        None \<Rightarrow> None
      | Some ts \<Rightarrow> parse_tokens Value [] ts)"


section \<open>String operations of the language\<close>

text \<open>
  \<open>String.prototype.trim\<close> removes white space and line terminators from both ends:
  tab, line feed, vertical tab, form feed, carriage return, space, no-break space,
  U+1680, U+2000 to U+200A, U+2028, U+2029, U+202F, U+205F, U+3000 and U+FEFF.
\<close>

definition is_js_space :: "nat \<Rightarrow> bool" where
  "is_js_space c =
     ((9 \<le> c \<and> c \<le> 13) \<or> c = 32 \<or> c = 160 \<or> c = 5760 \<or> (8192 \<le> c \<and> c \<le> 8202)
      \<or> c = 8232 \<or> c = 8233 \<or> c = 8239 \<or> c = 8287 \<or> c = 12288 \<or> c = 65279)"

definition trim :: "jsstring \<Rightarrow> jsstring" where
  "trim s = rev (dropWhile is_js_space (rev (dropWhile is_js_space s)))"

text \<open>
  \<open>text.match(/\{[\s\S]*\}/)\<close>: the match starts at the first \<open>{\<close> and, the star
  being greedy over every code unit, ends at the last \<open>}\<close> of the text; there is a
  match only if some \<open>}\<close> comes after the first \<open>{\<close>. The result is the matched
  text, \<open>jsonMatch[0]\<close>; \<open>None\<close> is the \<open>null\<close> of a failed match.
\<close>

definition match_braces :: "jsstring \<Rightarrow> jsstring option" where
  "match_braces text =
     (case dropWhile (\<lambda>c. c \<noteq> 123) text of
        [] \<Rightarrow> None
      | b # rest \<Rightarrow>
          (case dropWhile (\<lambda>c. c \<noteq> 125) (rev rest) of
             [] \<Rightarrow> None
           | e # inner \<Rightarrow> Some (b # rev inner @ [e])))"

text \<open>
  \<open>ToString v\<close> is the conversion a template literal applies to \<open>${v}\<close>, and
  \<open>join sep xs\<close> is \<open>xs.join(sep)\<close>; \<open>None\<close> is a thrown \<open>TypeError\<close>.
  An array converts as \<open>join(",")\<close>; \<open>join\<close> renders \<open>null\<close> as the empty string.
  An object converts to \<open>[object Object]\<close> through \<open>Object.prototype.toString\<close>,
  unless a property of its own named \<open>toString\<close> hides that method: the property
  holds JSON data, which cannot be called, \<open>valueOf\<close> then yields no primitive, and the
  conversion throws.
\<close>

fun ToString :: "(jsstring \<Rightarrow> jsstring) \<Rightarrow> json \<Rightarrow> jsstring option"
  and join :: "(jsstring \<Rightarrow> jsstring) \<Rightarrow> jsstring \<Rightarrow> json list \<Rightarrow> jsstring option"
  and element :: "(jsstring \<Rightarrow> jsstring) \<Rightarrow> json \<Rightarrow> jsstring option"
where
  "ToString numfmt JNull = Some (js ''null'')"
| "ToString numfmt (JBool b) = Some (if b then js ''true'' else js ''false'')"
| "ToString numfmt (JNumber n) = Some (numfmt n)"
| "ToString numfmt (JString s) = Some s"
| "ToString numfmt (JArray xs) = join numfmt (js '','') xs"
| "ToString numfmt (JObject kvs) =
     (if map_of kvs (js ''toString'') = None then Some (js ''[object Object]'') else None)"
| "join numfmt sep [] = Some []"
| "join numfmt sep [x] = element numfmt x"
| "join numfmt sep (x # y # ys) =
     (case element numfmt x of
        None \<Rightarrow> None
      | Some a \<Rightarrow>
          (case join numfmt sep (y # ys) of
             None \<Rightarrow> None
           | Some b \<Rightarrow> Some (a @ sep @ b)))"
| "element numfmt JNull = Some []"
| "element numfmt (JBool b) = ToString numfmt (JBool b)"
| "element numfmt (JNumber n) = ToString numfmt (JNumber n)"
| "element numfmt (JString s) = ToString numfmt (JString s)"
| "element numfmt (JArray xs) = ToString numfmt (JArray xs)"
| "element numfmt (JObject kvs) = ToString numfmt (JObject kvs)"

text \<open>\<open>${v.k}\<close> in a template literal; a missing property reads as \<open>undefined\<close>.\<close>

definition interpolate :: "(jsstring \<Rightarrow> jsstring) \<Rightarrow> json \<Rightarrow> jsstring \<Rightarrow> jsstring option" where
  "interpolate numfmt v k =
     (case Get v k of
        None \<Rightarrow> Some (js ''undefined'')
      | Some x \<Rightarrow> ToString numfmt x)"


section \<open>The external completion provider\<close>

text \<open>
  What one \<open>fetch\<close> to the provider's completions endpoint gives the route:
  the request fails (\<open>fetch\<close> rejects), the response has a status outside 200 to 299,
  the response is a success whose \<open>choices[0]?.message?.content\<close> is missing, or the
  response is a success carrying that content. The content of the provider's response
  envelope is a string; it may be empty.
\<close>

datatype upstream =
    NetworkError
  | NotOk nat
  | NoContent
  | Content jsstring

datatype error =
    FetchFailed             \<comment> \<open>\<open>fetch\<close> rejected\<close>
  | ApiError nat            \<comment> \<open>\<open>OpenAI API error: ${response.status}\<close>\<close>
  | NoResponse              \<comment> \<open>\<open>No response from AI\<close>\<close>
  | InvalidFormat           \<comment> \<open>\<open>Invalid response format from AI\<close>\<close>
  | SyntaxError             \<comment> \<open>thrown by \<open>JSON.parse\<close>\<close>
  | TypeError               \<comment> \<open>thrown by a property read or call on a value that has none\<close>
  | FailedToGetResponse     \<comment> \<open>\<open>Failed to get response\<close>\<close>
  | FailedToGeneratePersona \<comment> \<open>\<open>Failed to generate persona\<close>\<close>

text \<open>
  The steps both routes share after the \<open>fetch\<close>: the status check, reading the
  content, and the check \<open>!responseContent\<close>, which the empty string fails too.
\<close>

definition responseContent :: "upstream \<Rightarrow> error + jsstring" where
  "responseContent up =
     (case up of
        NetworkError \<Rightarrow> Inl FetchFailed
      | NotOk status \<Rightarrow> Inl (ApiError status)
      | NoContent \<Rightarrow> Inl NoResponse
      | Content c \<Rightarrow> if c = [] then Inl NoResponse else Inr c)"


section \<open>The route \<open>/api/generate-persona\<close>\<close>

record File =
  ftype :: jsstring
  fbytes :: "nat list"

datatype persona_response =
    PersonaSuccess json          \<comment> \<open>status 200, \<open>{ success: true, persona }\<close>\<close>
  | PersonaFailure nat jsstring  \<comment> \<open>the status and \<open>{ error }\<close>\<close>

text \<open>
  The body of the \<open>try\<close> block from the \<open>fetch\<close> on. The parsed value is returned
  as it is: the annotation \<open>persona: PersonaResult\<close> is erased at run time and nothing
  looks at the fields.
\<close>

definition extract_persona :: "upstream \<Rightarrow> error + json" where
  "extract_persona up =
     (case responseContent up of
        Inl e \<Rightarrow> Inl e
      | Inr content \<Rightarrow>
          (case match_braces content of
             None \<Rightarrow> Inl InvalidFormat
           | Some jsonMatch \<Rightarrow>
               (case JSON_parse jsonMatch of
                  None \<Rightarrow> Inl SyntaxError
                | Some persona \<Rightarrow> Inr persona)))"

text \<open>
  \<open>POST\<close>: the image of the form, if any, and what the provider answers to the request
  built from it. Every error thrown inside \<open>try\<close> is caught and answered with status
  500. (A second copy of the route in the same file also throws when the environment
  has no \<open>API_KEY\<close>; the rest of it is the same.)
\<close>

definition generate_persona_POST :: "File option \<Rightarrow> upstream \<Rightarrow> persona_response" where
  "generate_persona_POST imageFile up =
     (case imageFile of
        None \<Rightarrow> PersonaFailure 400 (js ''No image file provided'')
      | Some file \<Rightarrow>
          (case extract_persona up of
             Inl e \<Rightarrow> PersonaFailure 500 (js ''Failed to generate persona'')
           | Inr persona \<Rightarrow> PersonaSuccess persona))"


section \<open>The route \<open>/api/chat\<close>\<close>

datatype role = System | User | Assistant

record ChatMessage =
  role :: role
  content :: jsstring

text \<open>
  The request body. The persona is whatever value the client holds; the history is
  optional and defaults to the empty list.
\<close>

record ChatRequest =
  body_message :: jsstring
  body_persona :: json
  body_chatHistory :: "ChatMessage list option"

datatype chat_response =
    ChatSuccess jsstring      \<comment> \<open>status 200, \<open>{ success: true, response }\<close>\<close>
  | ChatFailure nat jsstring  \<comment> \<open>the status and \<open>{ error }\<close>\<close>

text \<open>
  \<open>persona.traits.join(', ')\<close>: only an array has a \<open>join\<close> to call; on a missing
  \<open>traits\<close>, and on a string, number, boolean, \<open>null\<close> or object, the call throws.
\<close>

definition traits_join :: "(jsstring \<Rightarrow> jsstring) \<Rightarrow> json \<Rightarrow> jsstring option" where
  "traits_join numfmt persona =
     (case Get persona (js ''traits'') of
        Some (JArray xs) \<Rightarrow> join numfmt (js '', '') xs
      | _ \<Rightarrow> None)"

definition systemPrompt :: "(jsstring \<Rightarrow> jsstring) \<Rightarrow> json \<Rightarrow> jsstring option" where
  "systemPrompt numfmt persona = do {
     name \<leftarrow> interpolate numfmt persona (js ''name'');
     description \<leftarrow> interpolate numfmt persona (js ''description'');
     personality \<leftarrow> interpolate numfmt persona (js ''personality'');
     background \<leftarrow> interpolate numfmt persona (js ''background'');
     traits \<leftarrow> traits_join numfmt persona;
     Some (js ''You are '' @ name @ js ''. '' @ description @ [10, 10]
       @ js ''Your personality: '' @ personality @ [10, 10]
       @ js ''Your background: '' @ background @ [10, 10]
       @ js ''Your key traits: '' @ traits @ [10, 10]
       @ js ''IMPORTANT: You must stay in character as '' @ name
       @ js '' at all times. Respond as if you are this person/object with the personality, background, and traits described above. Be creative, engaging, and consistent with your character. Use the personality traits and background to inform your responses.''
       @ [10, 10]
       @ js ''Keep your responses conversational and relatively brief (2-4 sentences typically), but feel free to be more detailed when the situation calls for it. Show emotion and personality in your responses.'')
   }"

text \<open>The message list: the system prompt, the history, the new message.\<close>

definition build_messages :: "(jsstring \<Rightarrow> jsstring) \<Rightarrow> ChatRequest \<Rightarrow> ChatMessage list option" where
  "build_messages numfmt body = do {
     prompt \<leftarrow> systemPrompt numfmt (body_persona body);
     Some (\<lparr>role = System, content = prompt\<rparr>
       # map (\<lambda>msg. \<lparr>role = role msg, content = content msg\<rparr>)
           (case body_chatHistory body of None \<Rightarrow> [] | Some h \<Rightarrow> h)
       @ [\<lparr>role = User, content = body_message body\<rparr>])
   }"

text \<open>
  \<open>POST\<close> returns its response and the message lists it sent to the provider (none or
  one). \<open>up\<close> is what the provider answers if it is called.
\<close>

definition chat_POST ::
  "(jsstring \<Rightarrow> jsstring) \<Rightarrow> upstream \<Rightarrow> ChatRequest \<Rightarrow> chat_response \<times> ChatMessage list list" where
  "chat_POST numfmt up body =
     (if body_message body = [] \<or> \<not> truthy numfmt (body_persona body)
      then (ChatFailure 400 (js ''Message and persona are required''), [])
      else
        (case build_messages numfmt body of
           None \<Rightarrow> (ChatFailure 500 (js ''Failed to generate response''), [])
         | Some messages \<Rightarrow>
             (case responseContent up of
                Inl e \<Rightarrow> (ChatFailure 500 (js ''Failed to generate response''), [messages])
              | Inr c \<Rightarrow> (ChatSuccess c, [messages]))))"


section \<open>The page: persona and conversation state\<close>

text \<open>
  The state of the \<open>Home\<close> component. \<open>persona\<close> holds the value received from the
  persona route as it came; \<open>JNull\<close> is the \<open>null\<close> of "no persona".
\<close>

record Home =
  selectedImage :: "jsstring option"
  persona :: json
  isLoading :: bool
  isChatLoading :: bool
  chatHistory :: "ChatMessage list"

datatype toast = ToastError jsstring | ToastSuccess jsstring

text \<open>A \<open>fetch\<close> from the page either rejects or resolves with a response.\<close>

datatype 'a fetched = Rejected | Responded 'a

text \<open>
  \<open>generatePersona\<close>. \<open>read_image\<close> is the \<open>fetch\<close> of the selected data URL and its
  \<open>blob()\<close>; \<open>api\<close> is the \<open>fetch\<close> of \<open>/api/generate-persona\<close> with that blob as
  the form's image. The result is the new state and the toasts shown.
\<close>

definition generatePersona ::
  "(jsstring \<Rightarrow> File fetched) \<Rightarrow> (File \<Rightarrow> persona_response fetched) \<Rightarrow> Home \<Rightarrow> Home \<times> toast list" where
  "generatePersona read_image api s =
     (case selectedImage s of
        None \<Rightarrow> (s, [ToastError (js ''Please upload an image first'')])
      | Some url \<Rightarrow>
          if url = [] then (s, [ToastError (js ''Please upload an image first'')])
          else
            let s1 = s\<lparr>isLoading := True\<rparr>;
                attempt =
                  (case read_image url of
                     Rejected \<Rightarrow> Inl FetchFailed
                   | Responded blob \<Rightarrow>
                       (case api blob of
                          Rejected \<Rightarrow> Inl FetchFailed
                        | Responded (PersonaFailure status e) \<Rightarrow> Inl FailedToGeneratePersona
                        | Responded (PersonaSuccess p) \<Rightarrow> Inr p))
            in case attempt of
                 Inr p \<Rightarrow>
                   (s1\<lparr>persona := p, chatHistory := [], isLoading := False\<rparr>,
                    [ToastSuccess (js ''Persona generated successfully!'')])
               | Inl e \<Rightarrow>
                   (s1\<lparr>isLoading := False\<rparr>,
                    [ToastError (js ''Failed to generate persona. Please try again.'')]))"

definition apology :: jsstring where
  "apology = js ''I'm sorry, I'm having trouble responding right now. Please try again.''"

text \<open>
  What a call of a send handler leaves: the state of the page, the error it threw to
  its caller (if any), and the request bodies it posted to \<open>/api/chat\<close>.
\<close>

record sent =
  home :: Home
  thrown :: "error option"
  posted :: "ChatRequest list"

text \<open>
  \<open>handleSendMessage\<close> of \<open>Home\<close>. \<open>backend\<close> is the \<open>fetch\<close> of \<open>/api/chat\<close>.
  One call runs from start to end with no other call in between, so the functional
  update \<open>setChatHistory(prev => ...)\<close> runs on the state the earlier
  \<open>setChatHistory(nextHistory)\<close> left.
\<close>

definition Home_handleSendMessage ::
  "(jsstring \<Rightarrow> jsstring) \<Rightarrow> (ChatRequest \<Rightarrow> chat_response fetched) \<Rightarrow> Home \<Rightarrow> jsstring \<Rightarrow> sent" where
  "Home_handleSendMessage numfmt backend s message =
     (if \<not> truthy numfmt (persona s) then \<lparr>home = s, thrown = None, posted = []\<rparr>
      else
        let s1 = s\<lparr>isChatLoading := True\<rparr>;
            nextHistory = chatHistory s1 @ [\<lparr>role = User, content = message\<rparr>];
            s2 = s1\<lparr>chatHistory := nextHistory\<rparr>;
            body = \<lparr>body_message = message, body_persona = persona s2,
                    body_chatHistory = Some nextHistory\<rparr>;
            attempt =
              (case backend body of
                 Rejected \<Rightarrow> Inl FetchFailed
               | Responded (ChatFailure status e) \<Rightarrow> Inl FailedToGetResponse
               | Responded (ChatSuccess response) \<Rightarrow> Inr response)
        in case attempt of
             Inr response \<Rightarrow>
               \<lparr>home = s2\<lparr>chatHistory := chatHistory s2 @ [\<lparr>role = Assistant, content = response\<rparr>],
                           isChatLoading := False\<rparr>,
                thrown = None, posted = [body]\<rparr>
           | Inl e \<Rightarrow>
               \<lparr>home = s2\<lparr>chatHistory := chatHistory s2 @ [\<lparr>role = Assistant, content = apology\<rparr>],
                           isChatLoading := False\<rparr>,
                thrown = Some e, posted = [body]\<rparr>)"

text \<open>
  The \<open>ChatBox\<close> component: the text of its input field and the bubbles it renders.
  Its props are the page's \<open>persona\<close>, \<open>chatHistory\<close>, \<open>isChatLoading\<close> (as
  \<open>isLoading\<close>) and the page's handler (as \<open>onSendMessage\<close>).
\<close>

datatype sender = FromUser | FromPersona

record ChatBox =
  inputMessage :: jsstring
  messages :: "(sender \<times> jsstring) list"

text \<open>
  \<open>handleSendMessage\<close> of \<open>ChatBox\<close>, what the send button and the Enter key call.
  It catches what the page's handler throws and shows a bubble of its own.
\<close>

definition ChatBox_handleSendMessage ::
  "(jsstring \<Rightarrow> jsstring) \<Rightarrow> (ChatRequest \<Rightarrow> chat_response fetched) \<Rightarrow> Home \<Rightarrow> ChatBox \<Rightarrow> sent \<times> ChatBox" where
  "ChatBox_handleSendMessage numfmt backend s box =
     (if trim (inputMessage box) = [] \<or> \<not> truthy numfmt (persona s) \<or> isChatLoading s
      then (\<lparr>home = s, thrown = None, posted = []\<rparr>, box)
      else
        let messageToSend = inputMessage box;
            box1 = box\<lparr>inputMessage := []\<rparr>;
            r = Home_handleSendMessage numfmt backend s messageToSend
        in case thrown r of
             None \<Rightarrow> (r, box1)
           | Some e \<Rightarrow> (r\<lparr>thrown := None\<rparr>, box1\<lparr>messages := messages box1 @ [(FromPersona, apology)]\<rparr>))"

text \<open>
  The deployed wiring: the page's \<open>fetch\<close> of \<open>/api/chat\<close> reaches the chat route,
  whose provider call gets the answer \<open>up\<close>; likewise for the persona route.
  Bodies travel as JSON text; the receiver is taken to decode the value the sender
  encoded.
\<close>

definition chat_backend ::
  "(jsstring \<Rightarrow> jsstring) \<Rightarrow> upstream \<Rightarrow> ChatRequest \<Rightarrow> chat_response fetched" where
  "chat_backend numfmt up body = Responded (fst (chat_POST numfmt up body))"

definition persona_backend :: "upstream \<Rightarrow> File \<Rightarrow> persona_response fetched" where
  "persona_backend up blob = Responded (generate_persona_POST (Some blob) up)"

text \<open>The message lists the provider receives for the bodies the page posted.\<close>

definition provider_calls ::
  "(jsstring \<Rightarrow> jsstring) \<Rightarrow> upstream \<Rightarrow> ChatRequest list \<Rightarrow> ChatMessage list list" where
  "provider_calls numfmt up bodies = concat (map (\<lambda>body. snd (chat_POST numfmt up body)) bodies)"

text \<open>
  A sequence of calls of the page's handler, one after the other, each with its
  message and with what the backend does for it.
\<close>

fun submit_all ::
  "(jsstring \<Rightarrow> jsstring) \<Rightarrow> Home \<Rightarrow> (jsstring \<times> (ChatRequest \<Rightarrow> chat_response fetched)) list \<Rightarrow> Home" where
  "submit_all numfmt s [] = s"
| "submit_all numfmt s ((message, backend) # turns) =
     submit_all numfmt (home (Home_handleSendMessage numfmt backend s message)) turns"


section \<open>Well-typed personas and the assembler as specified\<close>

text \<open>
  The interface \<open>PersonaResult\<close> that the routes and the page declare, and the object
  a value of that type is at run time.
\<close>

record PersonaResult =
  name :: jsstring
  description :: jsstring
  personality :: jsstring
  background :: jsstring
  traits :: "jsstring list"

definition persona_json :: "PersonaResult \<Rightarrow> json" where
  "persona_json p =
     JObject
       [(js ''name'', JString (name p)),
        (js ''description'', JString (description p)),
        (js ''personality'', JString (personality p)),
        (js ''background'', JString (background p)),
        (js ''traits'', JArray (map JString (traits p)))]"

text \<open>
  The Prompt Assembler in the words of the specification: the traits joined by commas,
  the five fields put into the fixed template, and the list made of the system
  instruction, the turns of the log in order, and the new user message.
\<close>

fun comma_joined :: "jsstring list \<Rightarrow> jsstring" where
  "comma_joined [] = []"
| "comma_joined [t] = t"
| "comma_joined (t # u # ts) = t @ js '', '' @ comma_joined (u # ts)"

definition spec_system_instruction :: "PersonaResult \<Rightarrow> jsstring" where
  "spec_system_instruction p =
     js ''You are '' @ name p @ js ''. '' @ description p @ [10, 10]
     @ js ''Your personality: '' @ personality p @ [10, 10]
     @ js ''Your background: '' @ background p @ [10, 10]
     @ js ''Your key traits: '' @ comma_joined (traits p) @ [10, 10]
     @ js ''IMPORTANT: You must stay in character as '' @ name p
     @ js '' at all times. Respond as if you are this person/object with the personality, background, and traits described above. Be creative, engaging, and consistent with your character. Use the personality traits and background to inform your responses.''
     @ [10, 10]
     @ js ''Keep your responses conversational and relatively brief (2-4 sentences typically), but feel free to be more detailed when the situation calls for it. Show emotion and personality in your responses.''"

definition spec_assemble :: "PersonaResult \<Rightarrow> ChatMessage list \<Rightarrow> jsstring \<Rightarrow> ChatMessage list" where
  "spec_assemble p h m =
     \<lparr>role = System, content = spec_system_instruction p\<rparr> # h @ [\<lparr>role = User, content = m\<rparr>]"

text \<open>
  The failures of the provider call that the specification lists: a network error, a
  status that is not a success, a missing or empty response text.
\<close>

fun upstream_failure :: "upstream \<Rightarrow> bool" where
  "upstream_failure NetworkError = True"
| "upstream_failure (NotOk status) = True"
| "upstream_failure NoContent = True"
| "upstream_failure (Content c) = (c = [])"

text \<open>
  The ways persona creation fails at the route once an image is there: the failures of
  the provider call, a text with no brace-delimited candidate, and a candidate that
  \<open>JSON.parse\<close> rejects.
\<close>

fun creation_failure :: "upstream \<Rightarrow> bool" where
  "creation_failure NetworkError = True"
| "creation_failure (NotOk status) = True"
| "creation_failure NoContent = True"
| "creation_failure (Content c) =
     (c = [] \<or> (case match_braces c of None \<Rightarrow> True | Some candidate \<Rightarrow> JSON_parse candidate = None))"


section \<open>The examples of the specification\<close>

definition rocky_text :: jsstring where
  \<open>rocky_text = js ''{"name":"Rocky","description":"a pebble","personality":"stoic","background":"fell from a cliff","traits":["calm","gritty","old","patient","silent"]}''\<close>

definition rocky :: PersonaResult where
  "rocky =
     \<lparr>name = js ''Rocky'', description = js ''a pebble'', personality = js ''stoic'',
      background = js ''fell from a cliff'',
      traits = [js ''calm'', js ''gritty'', js ''old'', js ''patient'', js ''silent'']\<rparr>"

definition cliff_text :: jsstring where
  \<open>cliff_text = js ''{"name":"Rocky","home":{"kind":"cliff"}}''\<close>

definition cliff_persona :: json where
  "cliff_persona =
     JObject [(js ''name'', JString (js ''Rocky'')),
              (js ''home'', JObject [(js ''kind'', JString (js ''cliff''))])]"

definition photo :: File where
  "photo = \<lparr>ftype = js ''image/jpeg'', fbytes = [255, 216, 255]\<rparr>"

definition read_photo :: "jsstring \<Rightarrow> File fetched" where
  "read_photo url = Responded photo"

definition chatting :: Home where
  "chatting =
     \<lparr>selectedImage = Some (js ''data:image/jpeg;base64,/9j/''), persona = persona_json rocky,
      isLoading = False, isChatLoading = False,
      chatHistory = [\<lparr>role = User, content = js ''hi''\<rparr>, \<lparr>role = Assistant, content = js ''...''\<rparr>]\<rparr>"


definition fresh :: Home where
  "fresh = chatting\<lparr>chatHistory := []\<rparr>"

definition unreachable :: "ChatRequest \<Rightarrow> chat_response fetched" where
  "unreachable body = Rejected"


section \<open>Extraction of the persona\<close>

lemma dropWhile_until:
  "x \<notin> set pre \<Longrightarrow> dropWhile (\<lambda>c. c \<noteq> x) (pre @ x # rest) = x # rest"
  by (induction pre) auto

lemma match_braces_between:
  assumes "123 \<notin> set pre" and "125 \<notin> set suf"
  shows "match_braces (pre @ 123 # mid @ 125 # suf) = Some (123 # mid @ [125])"
proof -
  have a: "dropWhile (\<lambda>c. c \<noteq> 123) (pre @ 123 # mid @ 125 # suf) = 123 # mid @ 125 # suf"
    using assms(1) by (rule dropWhile_until)
  have "125 \<notin> set (rev suf)"
    using assms(2) by simp
  then have "dropWhile (\<lambda>c. c \<noteq> 125) (rev suf @ 125 # rev mid) = 125 # rev mid"
    by (rule dropWhile_until)
  then have b: "dropWhile (\<lambda>c. c \<noteq> 125) (rev (mid @ 125 # suf)) = 125 # rev mid"
    by simp
  show ?thesis
    unfolding match_braces_def a by (simp only: b list.case rev_rev_ident)
qed

lemma match_braces_nonempty: "match_braces text = Some c \<Longrightarrow> text \<noteq> []"
  by (auto simp: match_braces_def)

lemma parse_rocky_text: "JSON_parse rocky_text = Some (persona_json rocky)"
  unfolding rocky_text_def persona_json_def rocky_def by code_simp

lemma rocky_text_braces:
  \<open>rocky_text = 123 # js ''"name":"Rocky","description":"a pebble","personality":"stoic","background":"fell from a cliff","traits":["calm","gritty","old","patient","silent"]'' @ [125]\<close>
  by (simp add: rocky_text_def)

text \<open>
  C1, as stated, fails: for the provider text \<open>{"name":"Rocky"}\<close> the route answers
  with success, and the persona it carries has a name and no description.
\<close>

theorem partial_persona_is_returned:
  \<open>generate_persona_POST (Some photo) (Content (js ''{"name":"Rocky"}''))
     = PersonaSuccess (JObject [(js ''name'', JString (js ''Rocky''))])
   \<and> Get (JObject [(js ''name'', JString (js ''Rocky''))]) (js ''description'') = None\<close>
  by code_simp

text \<open>
  C1, amended: when the provider text has a brace-delimited candidate, the route
  answers with success carrying the decoded value exactly as \<open>JSON.parse\<close> returned it,
  whatever fields it has; it answers with the failure of status 500 only when the
  candidate does not decode.
\<close>

theorem decoded_value_is_returned_unchecked:
  assumes "match_braces text = Some candidate"
  shows "generate_persona_POST (Some file) (Content text) =
           (case JSON_parse candidate of
              Some v \<Rightarrow> PersonaSuccess v
            | None \<Rightarrow> PersonaFailure 500 (js ''Failed to generate persona''))"
  using assms match_braces_nonempty [OF assms]
  by (simp add: generate_persona_POST_def extract_persona_def responseContent_def
      split: option.splits)

theorem decoded_value_is_returned_unchecked_witness:
  \<open>match_braces (js ''{"name":"Rocky"}'') = Some (js ''{"name":"Rocky"}'') \<and>
   JSON_parse (js ''{"name":"Rocky"}'') = Some (JObject [(js ''name'', JString (js ''Rocky''))]) \<and>
   generate_persona_POST (Some photo) (Content (js ''{"name":"Rocky"}''))
     = PersonaSuccess (JObject [(js ''name'', JString (js ''Rocky''))])\<close>
proof -
  have m: \<open>match_braces (js ''{"name":"Rocky"}'') = Some (js ''{"name":"Rocky"}'')\<close>
    by code_simp
  have p: \<open>JSON_parse (js ''{"name":"Rocky"}'')
             = Some (JObject [(js ''name'', JString (js ''Rocky''))])\<close>
    by code_simp
  show ?thesis
    using decoded_value_is_returned_unchecked [OF m, of photo] m p
    by (simp only: option.case simp_thms)
qed

text \<open>
  C2, as stated, fails: the noise is not arbitrary. When the noise before the object
  holds an opening brace, the candidate starts there, does not decode, and the route
  answers with the failure of status 500.
\<close>

theorem noise_with_a_brace_breaks_extraction:
  \<open>generate_persona_POST (Some photo)
      (Content (js ''Persona for {object}: {"name":"Rocky","description":"a pebble","personality":"stoic","background":"fell from a cliff","traits":["calm","gritty","old","patient","silent"]} trailing''))
     = PersonaFailure 500 (js ''Failed to generate persona'')\<close>
  by code_simp

text \<open>
  C2, amended: for a provider text made of noise without an opening brace, a persona
  object, and trailing noise without a closing brace, the candidate runs from the first
  \<open>{\<close> to the last \<open>}\<close>, so the route answers with success carrying the decoded
  object, whatever braces the object has inside; for the object of the specification's
  example the persona has the name \<open>Rocky\<close> and a traits sequence of length 5.
\<close>

theorem extraction_between_brace_free_noise:
  assumes "123 \<notin> set noise" and "125 \<notin> set trailing"
  shows "(JSON_parse (123 # inner @ [125]) = Some v \<longrightarrow>
            generate_persona_POST (Some file) (Content (noise @ 123 # inner @ 125 # trailing))
              = PersonaSuccess v)
         \<and> generate_persona_POST (Some file) (Content (noise @ rocky_text @ trailing))
             = PersonaSuccess (persona_json rocky)
         \<and> Get (persona_json rocky) (js ''name'') = Some (JString (js ''Rocky''))
         \<and> Get (persona_json rocky) (js ''traits'') = Some (JArray (map JString (traits rocky)))
         \<and> length (traits rocky) = 5"
proof -
  have general: "generate_persona_POST (Some file) (Content (noise @ 123 # mid @ 125 # trailing))
      = PersonaSuccess w" if "JSON_parse (123 # mid @ [125]) = Some w" for mid w
  proof -
    have "match_braces (noise @ 123 # mid @ 125 # trailing) = Some (123 # mid @ [125])"
      using assms by (rule match_braces_between)
    then show ?thesis
      using that
      by (simp add: generate_persona_POST_def extract_persona_def responseContent_def)
  qed
  obtain mid where mid: "rocky_text = 123 # mid @ [125]"
    using rocky_text_braces by blast
  have "JSON_parse (123 # mid @ [125]) = Some (persona_json rocky)"
    using parse_rocky_text by (simp only: mid)
  then have "generate_persona_POST (Some file) (Content (noise @ 123 # mid @ 125 # trailing))
      = PersonaSuccess (persona_json rocky)"
    by (rule general)
  then have "generate_persona_POST (Some file) (Content (noise @ rocky_text @ trailing))
      = PersonaSuccess (persona_json rocky)"
    by (simp add: mid)
  moreover have "Get (persona_json rocky) (js ''name'') = Some (JString (js ''Rocky''))"
    by (simp add: persona_json_def rocky_def)
  moreover have "Get (persona_json rocky) (js ''traits'') = Some (JArray (map JString (traits rocky)))"
    by (simp add: persona_json_def)
  moreover have "length (traits rocky) = 5"
    by (simp add: rocky_def)
  ultimately show ?thesis
    using general by blast
qed

theorem extraction_between_brace_free_noise_witness:
  \<open>js ''noise '' @ rocky_text @ js '' trailing'' =
     js ''noise {"name":"Rocky","description":"a pebble","personality":"stoic","background":"fell from a cliff","traits":["calm","gritty","old","patient","silent"]} trailing''
   \<and> generate_persona_POST (Some photo) (Content (js ''noise '' @ rocky_text @ js '' trailing''))
       = PersonaSuccess (persona_json rocky)
   \<and> Get (persona_json rocky) (js ''name'') = Some (JString (js ''Rocky''))
   \<and> length (traits rocky) = 5
   \<and> generate_persona_POST (Some photo) (Content (js ''noise '' @ cliff_text @ js '' trailing''))
       = PersonaSuccess cliff_persona\<close>
proof -
  have a: "123 \<notin> set (js ''noise '')"
    by simp
  have b: "125 \<notin> set (js '' trailing'')"
    by simp
  have c: \<open>js ''noise '' @ rocky_text @ js '' trailing'' =
     js ''noise {"name":"Rocky","description":"a pebble","personality":"stoic","background":"fell from a cliff","traits":["calm","gritty","old","patient","silent"]} trailing''\<close>
    by (simp add: rocky_text_def)
  have d: \<open>cliff_text = 123 # js ''"name":"Rocky","home":{"kind":"cliff"}'' @ [125]\<close>
    by (simp add: cliff_text_def)
  have e: \<open>JSON_parse (123 # js ''"name":"Rocky","home":{"kind":"cliff"}'' @ [125]) = Some cliff_persona\<close>
    unfolding cliff_persona_def by code_simp
  have f: \<open>js ''noise '' @ cliff_text @ js '' trailing''
           = js ''noise '' @ 123 # js ''"name":"Rocky","home":{"kind":"cliff"}'' @ 125 # js '' trailing''\<close>
    by (simp only: d append.simps append_assoc)
  have g: "generate_persona_POST (Some photo) (Content (js ''noise '' @ cliff_text @ js '' trailing''))
       = PersonaSuccess cliff_persona"
    using extraction_between_brace_free_noise [OF a b, of \<open>js ''"name":"Rocky","home":{"kind":"cliff"}''\<close> cliff_persona photo] e
    by (simp only: f)
  show ?thesis
    using extraction_between_brace_free_noise [OF a b, of \<open>js ''"name":"Rocky","home":{"kind":"cliff"}''\<close> cliff_persona photo] c g
    by blast
qed


section \<open>Submitting turns\<close>

lemma failure_no_content: "upstream_failure up \<Longrightarrow> \<exists>e. responseContent up = Inl e"
  by (cases up) (auto simp: responseContent_def)

lemma chat_POST_failure: "upstream_failure up \<Longrightarrow> \<exists>status e. fst (chat_POST numfmt up body) = ChatFailure status e"
  using failure_no_content [of up]
  by (auto simp: chat_POST_def split: option.splits)

lemma Home_send_not_success:
  assumes "truthy numfmt (persona s)"
    and "\<And>response. backend \<lparr>body_message = m, body_persona = persona s,
            body_chatHistory = Some (chatHistory s @ [\<lparr>role = User, content = m\<rparr>])\<rparr> \<noteq> Responded (ChatSuccess response)"
  shows "chatHistory (home (Home_handleSendMessage numfmt backend s m))
           = chatHistory s @ [\<lparr>role = User, content = m\<rparr>, \<lparr>role = Assistant, content = apology\<rparr>]
         \<and> thrown (Home_handleSendMessage numfmt backend s m) \<noteq> None"
  using assms
  by (auto simp: Home_handleSendMessage_def Let_def split: fetched.splits chat_response.splits)

lemma Home_send_log:
  assumes "truthy numfmt (persona s)"
  shows "\<exists>reply. chatHistory (home (Home_handleSendMessage numfmt backend s m))
           = chatHistory s @ [\<lparr>role = User, content = m\<rparr>, \<lparr>role = Assistant, content = reply\<rparr>]"
  using assms
  by (auto simp: Home_handleSendMessage_def Let_def split: fetched.splits chat_response.splits)

lemma Home_send_persona:
  "persona (home (Home_handleSendMessage numfmt backend s m)) = persona s"
  by (auto simp: Home_handleSendMessage_def Let_def split: fetched.splits chat_response.splits)

text \<open>
  C3: when a persona is active and the provider call of the chat route fails (network
  error, status that is not a success, missing or empty text), the page's handler
  leaves the log as it was, followed by the user turn with the submitted text and then
  one assistant turn with the fixed apology, and it throws to its caller.
\<close>

theorem fallback_on_upstream_failure:
  assumes "truthy numfmt (persona s)" and "upstream_failure up"
  shows "chatHistory (home (Home_handleSendMessage numfmt (chat_backend numfmt up) s userText))
           = chatHistory s @ [\<lparr>role = User, content = userText\<rparr>,
                              \<lparr>role = Assistant, content = apology\<rparr>]
         \<and> thrown (Home_handleSendMessage numfmt (chat_backend numfmt up) s userText)
             = Some FailedToGetResponse"
proof -
  obtain status e where
    "chat_backend numfmt up \<lparr>body_message = userText, body_persona = persona s,
        body_chatHistory = Some (chatHistory s @ [\<lparr>role = User, content = userText\<rparr>])\<rparr>
      = Responded (ChatFailure status e)"
    using chat_POST_failure [OF assms(2)] unfolding chat_backend_def by blast
  then show ?thesis
    using assms(1) by (simp add: Home_handleSendMessage_def Let_def)
qed

theorem fallback_on_upstream_failure_witness:
  "truthy id (persona chatting) \<and> upstream_failure (NotOk 503)
   \<and> chatHistory (home (Home_handleSendMessage id (chat_backend id (NotOk 503)) chatting (js ''hello'')))
       = chatHistory chatting @ [\<lparr>role = User, content = js ''hello''\<rparr>,
           \<lparr>role = Assistant, content = js ''I'm sorry, I'm having trouble responding right now. Please try again.''\<rparr>]
   \<and> thrown (Home_handleSendMessage id (chat_backend id (NotOk 503)) chatting (js ''hello''))
       = Some FailedToGetResponse"
proof -
  have a: "truthy id (persona chatting)"
    by (simp add: chatting_def persona_json_def)
  have b: "upstream_failure (NotOk 503)"
    by simp
  show ?thesis
    using fallback_on_upstream_failure [OF a b, of "js ''hello''"] a b
    by (simp add: apology_def)
qed

section \<open>Creating a persona\<close>

lemma generatePersona_cases:
  "generatePersona read_image api s = (s, [ToastError (js ''Please upload an image first'')])
   \<or> generatePersona read_image api s
       = (s\<lparr>isLoading := False\<rparr>, [ToastError (js ''Failed to generate persona. Please try again.'')])
   \<or> (\<exists>url blob p. selectedImage s = Some url \<and> read_image url = Responded blob
         \<and> api blob = Responded (PersonaSuccess p)
         \<and> generatePersona read_image api s
             = (s\<lparr>persona := p, chatHistory := [], isLoading := False\<rparr>,
                [ToastSuccess (js ''Persona generated successfully!'')]))"
proof (cases "selectedImage s")
  case None
  then show ?thesis by (simp add: generatePersona_def)
next
  case (Some url)
  show ?thesis
  proof (cases "url = []")
    case True
    with Some show ?thesis by (simp add: generatePersona_def)
  next
    case False
    show ?thesis
    proof (cases "read_image url")
      case Rejected
      with Some False show ?thesis by (simp add: generatePersona_def)
    next
      case (Responded blob)
      show ?thesis
      proof (cases "api blob")
        case Rejected
        with Some False \<open>read_image url = Responded blob\<close> show ?thesis
          by (simp add: generatePersona_def)
      next
        case answer: (Responded r)
        show ?thesis
        proof (cases r)
          case (PersonaSuccess p)
          with Some False Responded answer show ?thesis
            by (simp add: generatePersona_def)
        next
          case (PersonaFailure status e)
          with Some False Responded answer show ?thesis
            by (simp add: generatePersona_def)
        qed
      qed
    qed
  qed
qed

lemma creation_failure_Inl: "creation_failure up \<Longrightarrow> \<exists>e. extract_persona up = Inl e"
  by (cases up) (auto simp: extract_persona_def responseContent_def split: option.splits)

lemma failed_route:
  "creation_failure up \<Longrightarrow>
   persona_backend up blob = Responded (PersonaFailure 500 (js ''Failed to generate persona''))"
  using creation_failure_Inl [of up]
  by (auto simp: persona_backend_def generate_persona_POST_def)

text \<open>
  C4, as stated, fails for the validation failure: a provider text whose candidate
  decodes but lacks required fields is no failure to the page. The partial persona is
  installed in place of the one before and the log of two turns is reset.
\<close>

theorem partial_persona_is_installed:
  \<open>generatePersona read_photo (persona_backend (Content (js ''{"name":"Rocky"}''))) chatting
     = (chatting\<lparr>persona := JObject [(js ''name'', JString (js ''Rocky''))],
                 chatHistory := [], isLoading := False\<rparr>,
        [ToastSuccess (js ''Persona generated successfully!'')])
   \<and> persona chatting = persona_json rocky
   \<and> length (chatHistory chatting) = 2\<close>
  by code_simp

text \<open>
  C4, amended: when \<open>generatePersona\<close> fails, because no image is selected, the image
  cannot be read, the persona route cannot be reached, the provider call fails (network
  error, error status, missing or empty text), the text has no brace-delimited
  candidate or the candidate does not decode, then it shows an error toast and the
  persona, the log and the selected image are what they were before the call: the
  state is the one from before, with at most the loading flag cleared.
\<close>

theorem failed_generatePersona_keeps_state:
  assumes "selectedImage s = None \<or> selectedImage s = Some []
           \<or> (\<exists>url. selectedImage s = Some url
                \<and> (read_image url = Rejected
                    \<or> (\<exists>blob. read_image url = Responded blob
                         \<and> (api blob = Rejected
                             \<or> (\<exists>up. creation_failure up \<and> api blob = persona_backend up blob)))))"
  shows "persona (fst (generatePersona read_image api s)) = persona s
         \<and> chatHistory (fst (generatePersona read_image api s)) = chatHistory s
         \<and> selectedImage (fst (generatePersona read_image api s)) = selectedImage s
         \<and> (fst (generatePersona read_image api s) = s
              \<or> fst (generatePersona read_image api s) = s\<lparr>isLoading := False\<rparr>)
         \<and> (\<exists>reason. snd (generatePersona read_image api s) = [ToastError reason])"
proof -
  consider (none) "selectedImage s = None"
    | (empty) "selectedImage s = Some []"
    | (unread) url where "selectedImage s = Some url" "url \<noteq> []" "read_image url = Rejected"
    | (down) url blob where "selectedImage s = Some url" "url \<noteq> []"
        "read_image url = Responded blob" "api blob = Rejected"
    | (failed) url blob up where "selectedImage s = Some url" "url \<noteq> []"
        "read_image url = Responded blob" "creation_failure up" "api blob = persona_backend up blob"
    using assms by (cases "selectedImage s = Some []") auto
  then show ?thesis
  proof cases
    case none
    then show ?thesis by (simp add: generatePersona_def)
  next
    case empty
    then show ?thesis by (simp add: generatePersona_def)
  next
    case unread
    then show ?thesis by (simp add: generatePersona_def)
  next
    case down
    then show ?thesis by (simp add: generatePersona_def)
  next
    case failed
    have "api blob = Responded (PersonaFailure 500 (js ''Failed to generate persona''))"
      using failed(4,5) by (simp only: failed_route)
    with failed(1-3) show ?thesis by (simp add: generatePersona_def)
  qed
qed

theorem failed_generatePersona_keeps_state_witness:
  \<open>creation_failure (Content (js ''no braces here''))
   \<and> selectedImage chatting = Some (js ''data:image/jpeg;base64,/9j/'')
   \<and> read_photo (js ''data:image/jpeg;base64,/9j/'') = Responded photo
   \<and> persona (fst (generatePersona read_photo (persona_backend (Content (js ''no braces here''))) chatting))
       = persona_json rocky
   \<and> length (chatHistory (fst (generatePersona read_photo (persona_backend (Content (js ''no braces here''))) chatting))) = 2
   \<and> snd (generatePersona read_photo (persona_backend (Content (js ''no braces here''))) chatting)
       = [ToastError (js ''Failed to generate persona. Please try again.'')]\<close>
proof -
  have a: \<open>creation_failure (Content (js ''no braces here''))\<close>
    by (simp add: match_braces_def)
  have b: \<open>selectedImage chatting = Some (js ''data:image/jpeg;base64,/9j/'')\<close>
    by (simp add: chatting_def)
  have c: \<open>read_photo (js ''data:image/jpeg;base64,/9j/'') = Responded photo\<close>
    by (simp add: read_photo_def)
  have h: \<open>selectedImage chatting = None \<or> selectedImage chatting = Some []
           \<or> (\<exists>url. selectedImage chatting = Some url
                \<and> (read_photo url = Rejected
                    \<or> (\<exists>blob. read_photo url = Responded blob
                         \<and> (persona_backend (Content (js ''no braces here'')) blob = Rejected
                             \<or> (\<exists>up. creation_failure up
                                  \<and> persona_backend (Content (js ''no braces here'')) blob = persona_backend up blob)))))\<close>
    using a b c by blast
  have t: \<open>snd (generatePersona read_photo (persona_backend (Content (js ''no braces here''))) chatting)
       = [ToastError (js ''Failed to generate persona. Please try again.'')]\<close>
    by code_simp
  have p: "persona chatting = persona_json rocky" "length (chatHistory chatting) = 2"
    by (simp_all add: chatting_def)
  show ?thesis
    using failed_generatePersona_keeps_state [OF h] a b c t p by simp
qed

text \<open>
  C5: whenever \<open>generatePersona\<close> ends with the success toast, the log has length 0,
  whatever it held before, and the persona is the one the persona route returned for
  the selected image.
\<close>

theorem successful_generatePersona_resets_log:
  assumes "snd (generatePersona read_image api s) = [ToastSuccess (js ''Persona generated successfully!'')]"
  shows "length (chatHistory (fst (generatePersona read_image api s))) = 0
         \<and> (\<exists>url blob. selectedImage s = Some url \<and> read_image url = Responded blob
              \<and> api blob = Responded (PersonaSuccess (persona (fst (generatePersona read_image api s)))))"
  using assms generatePersona_cases [of read_image api s]
  by (elim disjE exE conjE) simp_all

theorem successful_generatePersona_resets_log_witness:
  \<open>snd (generatePersona read_photo (persona_backend (Content (js ''{"name":"Flint"}''))) chatting)
     = [ToastSuccess (js ''Persona generated successfully!'')]
   \<and> length (chatHistory chatting) = 2
   \<and> length (chatHistory (fst (generatePersona read_photo (persona_backend (Content (js ''{"name":"Flint"}''))) chatting))) = 0
   \<and> persona (fst (generatePersona read_photo (persona_backend (Content (js ''{"name":"Flint"}''))) chatting))
       = JObject [(js ''name'', JString (js ''Flint''))]\<close>
proof -
  have a: \<open>generatePersona read_photo (persona_backend (Content (js ''{"name":"Flint"}''))) chatting
     = (chatting\<lparr>persona := JObject [(js ''name'', JString (js ''Flint''))], chatHistory := [], isLoading := False\<rparr>,
        [ToastSuccess (js ''Persona generated successfully!'')])\<close>
    by code_simp
  have b: \<open>snd (generatePersona read_photo (persona_backend (Content (js ''{"name":"Flint"}''))) chatting)
     = [ToastSuccess (js ''Persona generated successfully!'')]\<close>
    by (simp only: a snd_conv)
  have c: "length (chatHistory chatting) = 2"
    by (simp add: chatting_def)
  have d: \<open>persona (fst (generatePersona read_photo (persona_backend (Content (js ''{"name":"Flint"}''))) chatting))
       = JObject [(js ''name'', JString (js ''Flint''))]\<close>
    unfolding a by simp
  show ?thesis
    using successful_generatePersona_resets_log [OF b] b c d by blast
qed


section \<open>The log under a sequence of turns\<close>

lemma submit_all_log:
  assumes "truthy numfmt (persona s)"
  shows "\<exists>replies. length replies = length turns
           \<and> chatHistory (submit_all numfmt s turns)
               = chatHistory s
                 @ concat (map (\<lambda>(turn, reply). [\<lparr>role = User, content = fst turn\<rparr>,
                                                   \<lparr>role = Assistant, content = reply\<rparr>])
                             (zip turns replies))"
  using assms
proof (induction turns arbitrary: s)
  case Nil
  then show ?case by simp
next
  case (Cons turn turns)
  obtain m backend where turn: "turn = (m, backend)"
    by (cases turn)
  define s1 where "s1 = home (Home_handleSendMessage numfmt backend s m)"
  obtain reply where step: "chatHistory s1
      = chatHistory s @ [\<lparr>role = User, content = m\<rparr>, \<lparr>role = Assistant, content = reply\<rparr>]"
    using Home_send_log [OF Cons.prems] unfolding s1_def by blast
  have "truthy numfmt (persona s1)"
    using Cons.prems by (simp add: s1_def Home_send_persona)
  then obtain replies where rest: "length replies = length turns"
    "chatHistory (submit_all numfmt s1 turns)
       = chatHistory s1
         @ concat (map (\<lambda>(turn, reply). [\<lparr>role = User, content = fst turn\<rparr>,
                                           \<lparr>role = Assistant, content = reply\<rparr>])
                     (zip turns replies))"
    using Cons.IH by blast
  have "length (reply # replies) = length (turn # turns)"
    using rest(1) by simp
  moreover have "chatHistory (submit_all numfmt s (turn # turns))
       = chatHistory s
         @ concat (map (\<lambda>(turn, reply). [\<lparr>role = User, content = fst turn\<rparr>,
                                           \<lparr>role = Assistant, content = reply\<rparr>])
                     (zip (turn # turns) (reply # replies)))"
    using rest(2) step by (simp add: turn s1_def)
  ultimately show ?case by blast
qed

lemma length_turn_pairs:
  "length xs = length ys \<Longrightarrow>
   length (concat (map (\<lambda>(t, r). [f t, g r]) (zip xs ys))) = 2 * length xs"
  by (induction xs ys rule: list_induct2) auto

text \<open>
  C6: after any sequence of calls of the page's handler with an active persona, made
  one after the other, whatever the backend did for each, the log is the log from
  before followed by one user turn and one assistant turn per call, in order: its
  length grew by twice the number of calls and the entries it had are untouched.
\<close>

theorem log_is_append_only:
  assumes "truthy numfmt (persona s)"
  shows "length (chatHistory (submit_all numfmt s turns)) = length (chatHistory s) + 2 * length turns
         \<and> take (length (chatHistory s)) (chatHistory (submit_all numfmt s turns)) = chatHistory s
         \<and> (\<exists>replies. length replies = length turns
              \<and> drop (length (chatHistory s)) (chatHistory (submit_all numfmt s turns))
                  = concat (map (\<lambda>(turn, reply). [\<lparr>role = User, content = fst turn\<rparr>,
                                                    \<lparr>role = Assistant, content = reply\<rparr>])
                              (zip turns replies)))"
proof -
  obtain replies where r: "length replies = length turns"
    "chatHistory (submit_all numfmt s turns)
       = chatHistory s
         @ concat (map (\<lambda>(turn, reply). [\<lparr>role = User, content = fst turn\<rparr>,
                                           \<lparr>role = Assistant, content = reply\<rparr>])
                     (zip turns replies))"
    using submit_all_log [OF assms] by blast
  have "length (chatHistory (submit_all numfmt s turns)) = length (chatHistory s) + 2 * length turns"
    using length_turn_pairs [OF r(1) [symmetric]] by (simp add: r(2))
  moreover have "take (length (chatHistory s)) (chatHistory (submit_all numfmt s turns)) = chatHistory s"
    by (simp add: r(2))
  moreover have "drop (length (chatHistory s)) (chatHistory (submit_all numfmt s turns))
                  = concat (map (\<lambda>(turn, reply). [\<lparr>role = User, content = fst turn\<rparr>,
                                                    \<lparr>role = Assistant, content = reply\<rparr>])
                              (zip turns replies))"
    by (simp add: r(2))
  ultimately show ?thesis using r(1) by blast
qed

theorem log_is_append_only_witness:
  "truthy id (persona fresh)
   \<and> length (chatHistory (submit_all id fresh
        [(js ''hello'', chat_backend id (Content (js ''Hi.''))), (js ''again'', unreachable)])) = 4
   \<and> chatHistory (submit_all id fresh
        [(js ''hello'', chat_backend id (Content (js ''Hi.''))), (js ''again'', unreachable)])
       = [\<lparr>role = User, content = js ''hello''\<rparr>, \<lparr>role = Assistant, content = js ''Hi.''\<rparr>,
          \<lparr>role = User, content = js ''again''\<rparr>, \<lparr>role = Assistant, content = apology\<rparr>]"
proof -
  have a: "truthy id (persona fresh)"
    by (simp add: fresh_def chatting_def persona_json_def)
  have b: "chatHistory fresh = []"
    by (simp add: fresh_def)
  have c: "chatHistory (submit_all id fresh
        [(js ''hello'', chat_backend id (Content (js ''Hi.''))), (js ''again'', unreachable)])
       = [\<lparr>role = User, content = js ''hello''\<rparr>, \<lparr>role = Assistant, content = js ''Hi.''\<rparr>,
          \<lparr>role = User, content = js ''again''\<rparr>, \<lparr>role = Assistant, content = apology\<rparr>]"
    by code_simp
  have "length (chatHistory (submit_all id fresh
        [(js ''hello'', chat_backend id (Content (js ''Hi.''))), (js ''again'', unreachable)])) = 4"
    using log_is_append_only [OF a, of "[(js ''hello'', chat_backend id (Content (js ''Hi.''))), (js ''again'', unreachable)]"]
    by (simp add: b)
  then show ?thesis using a c by blast
qed


section \<open>The prompt assembler\<close>

lemma join_strings: "join numfmt (js '', '') (map JString ts) = Some (comma_joined ts)"
  by (induction ts rule: comma_joined.induct) simp_all

lemma interpolate_typed:
  "interpolate numfmt (persona_json p) (js ''name'') = Some (name p)"
  "interpolate numfmt (persona_json p) (js ''description'') = Some (description p)"
  "interpolate numfmt (persona_json p) (js ''personality'') = Some (personality p)"
  "interpolate numfmt (persona_json p) (js ''background'') = Some (background p)"
  by (simp_all add: interpolate_def persona_json_def)

lemma traits_join_typed: "traits_join numfmt (persona_json p) = Some (comma_joined (traits p))"
proof -
  have "Get (persona_json p) (js ''traits'') = Some (JArray (map JString (traits p)))"
    by (simp add: persona_json_def)
  then show ?thesis
    unfolding traits_join_def by (simp only: option.case json.case join_strings)
qed

lemma systemPrompt_typed: "systemPrompt numfmt (persona_json p) = Some (spec_system_instruction p)"
  unfolding systemPrompt_def spec_system_instruction_def
  by (simp only: interpolate_typed traits_join_typed Option.bind.simps)

lemma truthy_persona_json: "truthy numfmt (persona_json p)"
  by (simp add: persona_json_def)

lemma copy_turns: "map (\<lambda>msg. \<lparr>role = role msg, content = content msg\<rparr>) h = h"
  by (induction h) simp_all

text \<open>
  C7: for every well-typed persona \<open>p\<close>, log \<open>h\<close> and user message \<open>m\<close>, the
  message list the chat route builds is the one specified: the system message whose
  content is the fixed template with the name, description, personality, background
  and comma-joined traits of \<open>p\<close>, then the turns of \<open>h\<close> in order with their roles,
  then the user message \<open>m\<close>.
\<close>

theorem assembled_messages:
  "build_messages numfmt \<lparr>body_message = m, body_persona = persona_json p, body_chatHistory = Some h\<rparr>
     = Some (spec_assemble p h m)"
  by (simp add: build_messages_def systemPrompt_typed copy_turns spec_assemble_def)

theorem assembled_messages_witness:
  "build_messages id \<lparr>body_message = js ''hello'', body_persona = persona_json rocky,
      body_chatHistory = Some (chatHistory chatting)\<rparr>
     = Some [\<lparr>role = System, content =
                js ''You are Rocky. a pebble'' @ [10, 10]
                @ js ''Your personality: stoic'' @ [10, 10]
                @ js ''Your background: fell from a cliff'' @ [10, 10]
                @ js ''Your key traits: calm, gritty, old, patient, silent'' @ [10, 10]
                @ js ''IMPORTANT: You must stay in character as Rocky at all times. Respond as if you are this person/object with the personality, background, and traits described above. Be creative, engaging, and consistent with your character. Use the personality traits and background to inform your responses.''
                @ [10, 10]
                @ js ''Keep your responses conversational and relatively brief (2-4 sentences typically), but feel free to be more detailed when the situation calls for it. Show emotion and personality in your responses.''\<rparr>,
             \<lparr>role = User, content = js ''hi''\<rparr>,
             \<lparr>role = Assistant, content = js ''...''\<rparr>,
             \<lparr>role = User, content = js ''hello''\<rparr>]"
  using assembled_messages [of id "js ''hello''" rocky "chatHistory chatting"]
  by (simp add: spec_assemble_def spec_system_instruction_def rocky_def chatting_def)


section \<open>Blank input and repeated user text\<close>

lemma trim_blank:
  assumes "list_all is_js_space text"
  shows "trim text = []"
proof -
  have blank: "dropWhile is_js_space text = []"
    using assms by (simp add: list_all_iff)
  show ?thesis
    unfolding trim_def blank by simp
qed

text \<open>
  C9: when the input is empty or consists of white space only, and likewise when no
  persona is active, the chat box's handler changes nothing: the page's state and so
  the log are as before, nothing is posted to the chat route, and so the provider is
  not called.
\<close>

theorem blank_submission_is_noop:
  assumes "list_all is_js_space (inputMessage box) \<or> \<not> truthy numfmt (persona s)"
  shows "ChatBox_handleSendMessage numfmt backend s box
           = (\<lparr>home = s, thrown = None, posted = []\<rparr>, box)
         \<and> provider_calls numfmt up (posted (fst (ChatBox_handleSendMessage numfmt backend s box))) = []"
proof -
  have "trim (inputMessage box) = [] \<or> \<not> truthy numfmt (persona s)"
    using assms trim_blank by blast
  then have "ChatBox_handleSendMessage numfmt backend s box
           = (\<lparr>home = s, thrown = None, posted = []\<rparr>, box)"
    by (auto simp: ChatBox_handleSendMessage_def)
  then show ?thesis
    by (simp add: provider_calls_def)
qed

theorem blank_submission_is_noop_witness:
  "list_all is_js_space (js ''   '')
   \<and> ChatBox_handleSendMessage id (chat_backend id (Content (js ''Hi.''))) chatting
        \<lparr>inputMessage = js ''   '', messages = []\<rparr>
       = (\<lparr>home = chatting, thrown = None, posted = []\<rparr>, \<lparr>inputMessage = js ''   '', messages = []\<rparr>)
   \<and> provider_calls id (Content (js ''Hi.''))
        (posted (fst (ChatBox_handleSendMessage id (chat_backend id (Content (js ''Hi.''))) chatting
           \<lparr>inputMessage = js ''   '', messages = []\<rparr>))) = []"
proof -
  have a: "list_all is_js_space (inputMessage \<lparr>inputMessage = js ''   '', messages = []\<rparr>)
            \<or> \<not> truthy id (persona chatting)"
    by (simp add: is_js_space_def)
  have b: "list_all is_js_space (js ''   '')"
    by (simp add: is_js_space_def)
  show ?thesis
    using blank_submission_is_noop [OF a, of "chat_backend id (Content (js ''Hi.''))" "Content (js ''Hi.'')"] b
    by blast
qed

lemma last_two: "drop (length (xs @ [a, b]) - 2) (xs @ [a, b]) = [a, b]"
  by simp

lemma chat_POST_calls:
  "snd (chat_POST numfmt up body) = []
   \<or> (\<exists>prompt. snd (chat_POST numfmt up body)
        = [\<lparr>role = System, content = prompt\<rparr>
           # (case body_chatHistory body of None \<Rightarrow> [] | Some h \<Rightarrow> h)
           @ [\<lparr>role = User, content = body_message body\<rparr>]])"
  by (auto simp: chat_POST_def build_messages_def copy_turns split: option.splits sum.splits Option.bind_splits)

lemma Home_send_posted:
  "posted (Home_handleSendMessage numfmt backend s m) = []
   \<or> posted (Home_handleSendMessage numfmt backend s m)
       = [\<lparr>body_message = m, body_persona = persona s,
           body_chatHistory = Some (chatHistory s @ [\<lparr>role = User, content = m\<rparr>])\<rparr>]"
  by (auto simp: Home_handleSendMessage_def Let_def split: fetched.splits chat_response.splits)

lemma Home_send_posted_active:
  "truthy numfmt (persona s) \<Longrightarrow>
   posted (Home_handleSendMessage numfmt backend s m)
       = [\<lparr>body_message = m, body_persona = persona s,
           body_chatHistory = Some (chatHistory s @ [\<lparr>role = User, content = m\<rparr>])\<rparr>]"
  by (auto simp: Home_handleSendMessage_def Let_def split: fetched.splits chat_response.splits)

text \<open>
  C10: every message list that reaches the provider for a turn submitted through the
  page's handler ends with two user messages that both hold the submitted text; and
  with a well-typed persona and a non-empty text exactly one list is sent: the system
  message, the log from before, and the user text twice.
\<close>

theorem user_text_is_sent_twice:
  "(\<forall>messages \<in> set (provider_calls numfmt up (posted (Home_handleSendMessage numfmt (chat_backend numfmt up) s m))).
      drop (length messages - 2) messages = [\<lparr>role = User, content = m\<rparr>, \<lparr>role = User, content = m\<rparr>])
   \<and> (persona s = persona_json p \<and> m \<noteq> [] \<longrightarrow>
        provider_calls numfmt up (posted (Home_handleSendMessage numfmt (chat_backend numfmt up) s m))
          = [\<lparr>role = System, content = spec_system_instruction p\<rparr>
             # chatHistory s @ [\<lparr>role = User, content = m\<rparr>, \<lparr>role = User, content = m\<rparr>]])"
proof (intro conjI ballI impI)
  fix messages
  assume in_calls: "messages \<in> set (provider_calls numfmt up
      (posted (Home_handleSendMessage numfmt (chat_backend numfmt up) s m)))"
  define body where "body = \<lparr>body_message = m, body_persona = persona s,
      body_chatHistory = Some (chatHistory s @ [\<lparr>role = User, content = m\<rparr>])\<rparr>"
  have "messages \<in> set (snd (chat_POST numfmt up body))"
    using in_calls Home_send_posted [of numfmt "chat_backend numfmt up" s m]
    by (auto simp: provider_calls_def body_def)
  then obtain prompt where "messages = (\<lparr>role = System, content = prompt\<rparr> # chatHistory s)
      @ [\<lparr>role = User, content = m\<rparr>, \<lparr>role = User, content = m\<rparr>]"
    using chat_POST_calls [of numfmt up body] by (auto simp: body_def)
  then show "drop (length messages - 2) messages
      = [\<lparr>role = User, content = m\<rparr>, \<lparr>role = User, content = m\<rparr>]"
    by (simp only: last_two)
next
  assume typed: "persona s = persona_json p \<and> m \<noteq> []"
  then have active: "truthy numfmt (persona s)"
    by (simp add: truthy_persona_json)
  show "provider_calls numfmt up (posted (Home_handleSendMessage numfmt (chat_backend numfmt up) s m))
          = [\<lparr>role = System, content = spec_system_instruction p\<rparr>
             # chatHistory s @ [\<lparr>role = User, content = m\<rparr>, \<lparr>role = User, content = m\<rparr>]]"
    using typed active
    by (simp add: Home_send_posted_active provider_calls_def chat_POST_def build_messages_def
        systemPrompt_typed copy_turns split: sum.splits)
qed

theorem user_text_is_sent_twice_witness:
  "persona chatting = persona_json rocky \<and> js ''hello'' \<noteq> []
   \<and> provider_calls id (Content (js ''Hi.''))
        (posted (Home_handleSendMessage id (chat_backend id (Content (js ''Hi.''))) chatting (js ''hello'')))
       = [[\<lparr>role = System, content = spec_system_instruction rocky\<rparr>,
           \<lparr>role = User, content = js ''hi''\<rparr>, \<lparr>role = Assistant, content = js ''...''\<rparr>,
           \<lparr>role = User, content = js ''hello''\<rparr>, \<lparr>role = User, content = js ''hello''\<rparr>]]"
proof -
  have a: "persona chatting = persona_json rocky \<and> js ''hello'' \<noteq> []"
    by (simp add: chatting_def)
  have b: "chatHistory chatting = [\<lparr>role = User, content = js ''hi''\<rparr>, \<lparr>role = Assistant, content = js ''...''\<rparr>]"
    by (simp add: chatting_def)
  show ?thesis
    using user_text_is_sent_twice [of id "Content (js ''Hi.'')" chatting "js ''hello''" rocky] a
    by (simp add: b)
qed

end
